theory Spec2Isabelle
  imports Main
begin

section \<open>Values, types and exceptions\<close>

text \<open>
  The Python values that reach the field and call machinery. \<open>VEllipsis\<close> is the
  sentinel \<^verbatim>\<open>...\<close> that \<^verbatim>\<open>field.py\<close> uses for "no value"; \<^verbatim>\<open>func.py\<close> tests the same
  sentinel through \<^verbatim>\<open>unprovided(...)\<close>. A dict is an association list in insertion
  order. \<open>VGen g\<close> is a generator object in state \<open>g\<close>. Floats and tuples are left out of
  the value universe.
\<close>

datatype pyval =
    VNone
  | VEllipsis
  | VBool bool
  | VInt int
  | VStr string
  | VList "pyval list"
  | VDict "(pyval \<times> pyval) list"
  | VGen nat

text \<open>
  The type objects a field can be annotated with, as far as \<^verbatim>\<open>field.py\<close> inspects them:
  an ordinary class; a \<^verbatim>\<open>Rule\<close> subclass with its \<^verbatim>\<open>const\<close> attribute (\<open>VEllipsis\<close> when it
  has none); a \<^verbatim>\<open>LogicalType\<close> carrying what \<^verbatim>\<open>resolve_combined_origin()\<close> returns for it
  (nothing, or a combinator with its arguments); a schema class (an instance of
  \<^verbatim>\<open>SchemaMeta\<close>) with what \<^verbatim>\<open>__get_field__\<close> finds: the type of each of its fields.
\<close>

datatype ptype =
    Common string
  | RuleT string pyval
  | Logical "(string \<times> ptype list) option"
  | SchemaT string "(string \<times> ptype) list"

datatype item = ItemName string | ItemIndex nat

text \<open>
  Exceptions. \<open>ParseError item type value origin_exc\<close> and \<open>AbsenceError item\<close> are the
  data errors of \<^verbatim>\<open>utils/exceptions.py\<close>; \<open>CollectedParseError\<close> carries the error buffer.
  Messages of the built-in exceptions are shortened.
\<close>

datatype exn =
    TypeError string
  | ValueError string
  | SyntaxError string
  | RuntimeError string
  | StopIteration pyval
  | ParseError item ptype pyval exn
  | AbsenceError string
  | CollectedParseError "exn list"

datatype warning =
    DeprecationWarning string
  | ErrorMessage exn
  | UserWarning string

text \<open>Python truthiness of an optional string and of an optional bool.\<close>

fun truthy_str :: "string option \<Rightarrow> bool" where
  "truthy_str None = False"
| "truthy_str (Some s) = (s \<noteq> [])"

fun truthy_bool :: "bool option \<Rightarrow> bool" where
  "truthy_bool None = False"
| "truthy_bool (Some b) = b"

text \<open>\<^verbatim>\<open>a in b\<close> on two Python strings: \<open>a\<close> occurs in \<open>b\<close> as a contiguous substring.\<close>

fun is_prefix :: "string \<Rightarrow> string \<Rightarrow> bool" where
  "is_prefix [] t = True"
| "is_prefix (a # s) [] = False"
| "is_prefix (a # s) (b # t) = (a = b \<and> is_prefix s t)"

fun str_in :: "string \<Rightarrow> string \<Rightarrow> bool" where
  "str_in s [] = (s = [])"
| "str_in s (c # t) = (is_prefix s (c # t) \<or> str_in s t)"

text \<open>Python's \<^verbatim>\<open>==\<close> on hashable scalars: \<^verbatim>\<open>True == 1\<close> and \<^verbatim>\<open>False == 0\<close>.\<close>

fun py_eq :: "pyval \<Rightarrow> pyval \<Rightarrow> bool" where
  "py_eq (VBool a) (VInt n) = ((if a then 1 else 0) = n)"
| "py_eq (VInt n) (VBool a) = ((if a then 1 else 0) = n)"
| "py_eq u v = (u = v)"

fun hashable :: "pyval \<Rightarrow> bool" where
  "hashable (VList xs) = False"
| "hashable (VDict kvs) = False"
| "hashable v = True"

text \<open>\<^verbatim>\<open>d.get(k)\<close> and \<^verbatim>\<open>d[k]\<close> for a hashable key \<open>k\<close>.\<close>

fun dict_lookup :: "(pyval \<times> 'a) list \<Rightarrow> pyval \<Rightarrow> 'a option" where
  "dict_lookup [] k = None"
| "dict_lookup ((k', v) # kvs) k = (if py_eq k' k then Some v else dict_lookup kvs k)"

definition dict_get :: "(pyval \<times> pyval) list \<Rightarrow> pyval \<Rightarrow> pyval" where
  "dict_get d k = (case dict_lookup d k of None \<Rightarrow> VNone | Some v \<Rightarrow> v)"

section \<open>Runtime options\<close>

text \<open>
  The per-call options object (\<^verbatim>\<open>RuntimeOptions\<close> in \<^verbatim>\<open>field.py\<close>, \<^verbatim>\<open>RuntimeContext\<close> with its
  \<^verbatim>\<open>options\<close> in \<^verbatim>\<open>func.py\<close>): the attributes the code reads, the error buffer and the
  collected warnings. The transformer it refers to is passed to the functions below as
  the parameter \<open>tr\<close>.
\<close>

datatype dflt = DValue pyval | DFactory pyval

record RuntimeOptions =
  mode :: "string option"
  ignore_required :: bool
  no_default :: bool
  force_default :: dflt
  invalid_values :: string
  invalid_items :: string
  errors :: "exn list"
  warnings :: "warning list"

definition EXCLUDE :: string where "EXCLUDE = ''exclude''"
definition PRESERVE :: string where "PRESERVE = ''preserve''"
definition THROW :: string where "THROW = ''throw''"

text \<open>
  Modelled from the spec: \<^verbatim>\<open>handle_error\<close>, \<^verbatim>\<open>collect_waring\<close> and \<^verbatim>\<open>raise_error\<close> of the
  options object (\<^verbatim>\<open>options.py\<close> is not among the sources). The context holds an error
  buffer; an error escalated through it is accumulated and all accumulated errors are
  raised together by \<^verbatim>\<open>raise_error\<close>; with \<^verbatim>\<open>force_raise\<close> the error is raised at once; a
  warning is recorded and never raised.
\<close>

definition handle_error :: "RuntimeOptions \<Rightarrow> exn \<Rightarrow> bool \<Rightarrow> exn + RuntimeOptions" where
  "handle_error options e force_raise =
     (if force_raise then Inl e else Inr (options\<lparr>errors := errors options @ [e]\<rparr>))"

definition collect_waring :: "RuntimeOptions \<Rightarrow> warning \<Rightarrow> RuntimeOptions" where
  "collect_waring options w = options\<lparr>warnings := warnings options @ [w]\<rparr>"

definition raise_error :: "RuntimeOptions \<Rightarrow> exn + RuntimeOptions" where
  "raise_error options =
     (if errors options = [] then Inr options else Inl (CollectedParseError (errors options)))"


section \<open>Field\<close>

datatype required_t = ReqBool bool | ReqMode string

datatype no_io = NoBool bool | NoStr string | NoCall "pyval \<Rightarrow> bool"

datatype alias_arg = AliasNone | AliasStr string | AliasCall "string \<Rightarrow> pyval"

datatype deprecated_arg = DepBool bool | DepStr string

text \<open>
  \<^verbatim>\<open>alias_from\<close> is a string, a callable or a list object. A list is held by reference:
  \<open>AFList a\<close> is the list stored at address \<open>a\<close> of the heap of list objects, so that two
  names for one list are visible as such.
\<close>

datatype alias_item = AStr string | ACall "string \<Rightarrow> pyval"

datatype alias_from_t = AFNone | AFOne alias_item | AFList nat

type_synonym heap = "nat \<Rightarrow> alias_item list option"

text \<open>The keyword arguments of \<^verbatim>\<open>Field.__init__\<close> that decide its checks and its attributes
  of behaviour (annotations and constraints are stored as given and left out).\<close>

record Field_kwargs =
  kw_alias :: alias_arg
  kw_alias_from :: alias_from_t
  kw_required :: "required_t option"
  kw_readonly :: "bool option"
  kw_writeonly :: "bool option"
  kw_mode :: "string option"
  kw_default :: dflt
  kw_deprecated :: deprecated_arg
  kw_discriminator :: "string option"
  kw_no_input :: no_io
  kw_no_output :: no_io
  kw_on_error :: "string option"

record Field =
  alias_str :: "string option"
  alias_generator :: "(string \<Rightarrow> pyval) option"
  alias_from :: alias_from_t
  deprecated :: bool
  deprecated_to :: "string option"
  no_input :: no_io
  no_output :: no_io
  required :: required_t
  default :: dflt
  discriminator :: "string option"
  on_error :: "string option"
  mode :: "string option"

definition DEFAULT_REQUIRED :: bool where "DEFAULT_REQUIRED = True"

fun truthy_deprecated :: "deprecated_arg \<Rightarrow> bool" where
  "truthy_deprecated (DepBool b) = b"
| "truthy_deprecated (DepStr s) = (s \<noteq> [])"

text \<open>\<^verbatim>\<open>isinstance(x, str)\<close>, then \<^verbatim>\<open>if mode:\<close>, then \<^verbatim>\<open>x not in mode\<close>.\<close>

fun not_in_mode :: "no_io \<Rightarrow> string option \<Rightarrow> bool" where
  "not_in_mode (NoStr s) (Some m) = (m \<noteq> [] \<and> \<not> str_in s m)"
| "not_in_mode x m = False"

definition Field_init :: "Field_kwargs \<Rightarrow> exn + Field" where
  "Field_init kw =
     (if truthy_str (kw_mode kw) \<and> (truthy_bool (kw_readonly kw) \<or> truthy_bool (kw_writeonly kw))
      then Inl (ValueError ''Field: mode cannot set with readonly or writeonly'')
      else if truthy_bool (kw_readonly kw) \<and> truthy_bool (kw_writeonly kw)
      then Inl (ValueError ''Field: readonly and writeonly cannot be both specified'')
      else
        let mode1 = (if truthy_bool (kw_readonly kw) then Some ''r'' else kw_mode kw);
            mode2 = (if truthy_bool (kw_writeonly kw) then Some ''w'' else mode1);
            required1 = (if truthy_deprecated (kw_deprecated kw) then Some (ReqBool False) else kw_required kw);
            required2 = (if kw_default kw \<noteq> DValue VEllipsis then Some (ReqBool False) else required1);
            required3 = (case required2 of None \<Rightarrow> ReqBool DEFAULT_REQUIRED | Some r \<Rightarrow> r)
        in if not_in_mode (kw_no_input kw) mode2
           then Inl (ValueError ''Field no_input is not in mode'')
           else if not_in_mode (kw_no_output kw) mode2
           then Inl (ValueError ''Field no_output is not in mode'')
           else Inr \<lparr>
             alias_str = (case kw_alias kw of AliasStr s \<Rightarrow> Some s | _ \<Rightarrow> None),
             alias_generator = (case kw_alias kw of AliasCall g \<Rightarrow> Some g | _ \<Rightarrow> None),
             alias_from = kw_alias_from kw,
             deprecated = truthy_deprecated (kw_deprecated kw),
             deprecated_to = (case kw_deprecated kw of DepStr s \<Rightarrow> Some s | _ \<Rightarrow> None),
             no_input = kw_no_input kw,
             no_output = kw_no_output kw,
             required = required3,
             default = kw_default kw,
             discriminator = kw_discriminator kw,
             on_error = kw_on_error kw,
             mode = mode2 \<rparr>)"


section \<open>SchemaField\<close>

record SchemaField =
  attname :: string
  name :: string
  type :: ptype
  field :: Field
  discriminator_map :: "(pyval \<times> ptype) list"

definition get_default :: "SchemaField \<Rightarrow> RuntimeOptions \<Rightarrow> pyval" where
  "get_default sf options =
     (if RuntimeOptions.no_default options then VEllipsis
      else
        let d = (if force_default options \<noteq> DValue VEllipsis then force_default options
                 else Field.default (field sf))
        in (case d of DFactory v \<Rightarrow> v | DValue v \<Rightarrow> v))"

definition get_on_error :: "SchemaField \<Rightarrow> RuntimeOptions \<Rightarrow> string" where
  "get_on_error sf options =
     (if truthy_str (on_error (field sf)) then the (on_error (field sf))
      else invalid_values options)"

definition is_required :: "SchemaField \<Rightarrow> RuntimeOptions \<Rightarrow> bool" where
  "is_required sf options =
     (if ignore_required options then False
      else case required (field sf) of
        ReqBool b \<Rightarrow> b
      | ReqMode r \<Rightarrow>
          (if \<not> truthy_str (RuntimeOptions.mode options) then False
           else str_in r (the (RuntimeOptions.mode options))))"

definition no_input_of :: "SchemaField \<Rightarrow> pyval \<Rightarrow> RuntimeOptions \<Rightarrow> bool" where
  "no_input_of sf v options =
     (case no_input (field sf) of
        NoBool b \<Rightarrow> b
      | NoCall p \<Rightarrow> p v
      | NoStr s \<Rightarrow>
          (if \<not> truthy_str (RuntimeOptions.mode options) then False
           else if truthy_str (Field.mode (field sf))
           then \<not> str_in (the (RuntimeOptions.mode options)) (the (Field.mode (field sf)))
           else str_in (the (RuntimeOptions.mode options)) s))"

text \<open>
  The first lines of \<^verbatim>\<open>parse_value\<close>: the deprecation notice, then the choice of the
  target type. With a non-empty discriminator map and a dict input, the tag entry is
  looked up in the map; \<^verbatim>\<open>discriminator in self.discriminator_map\<close> hashes the tag, which
  raises \<^verbatim>\<open>TypeError\<close> for a list or a dict, outside the \<^verbatim>\<open>try\<close>.
\<close>

definition deprecation_notice :: "SchemaField \<Rightarrow> RuntimeOptions \<Rightarrow> RuntimeOptions" where
  "deprecation_notice sf options =
     (if deprecated (field sf) then collect_waring options (DeprecationWarning (name sf))
      else options)"

definition target_type :: "SchemaField \<Rightarrow> pyval \<Rightarrow> exn + ptype" where
  "target_type sf v =
     (if discriminator_map sf \<noteq> [] then
        (case v of
           VDict d \<Rightarrow>
             (let tag = dict_get d (VStr (the (discriminator (field sf)))) in
              if \<not> hashable tag then Inl (TypeError ''unhashable type'')
              else (case dict_lookup (discriminator_map sf) tag of
                      Some t \<Rightarrow> Inr t
                    | None \<Rightarrow> Inr (type sf)))
         | _ \<Rightarrow> Inr (type sf))
      else Inr (type sf))"

definition parse_value ::
  "(pyval \<Rightarrow> ptype \<Rightarrow> exn + pyval) \<Rightarrow> SchemaField \<Rightarrow> pyval \<Rightarrow> RuntimeOptions
     \<Rightarrow> exn + (pyval \<times> RuntimeOptions)" where
  "parse_value tr sf v options0 =
     (let options = deprecation_notice sf options0 in
      case target_type sf v of
        Inl e \<Rightarrow> Inl e
      | Inr t \<Rightarrow>
          (case tr v t of
             Inr r \<Rightarrow> Inr (r, options)
           | Inl e \<Rightarrow>
               (let error = ParseError (ItemName (name sf)) (type sf) v e;
                    error_option = get_on_error sf options
                in if error_option = EXCLUDE then
                     (if is_required sf options then
                        (case handle_error options error False of
                           Inl x \<Rightarrow> Inl x
                         | Inr options' \<Rightarrow> Inr (VEllipsis, options'))
                      else Inr (VEllipsis, collect_waring options (ErrorMessage error)))
                   else if error_option = PRESERVE then
                     Inr (v, collect_waring options (ErrorMessage error))
                   else
                     (case handle_error options error False of
                        Inl x \<Rightarrow> Inl x
                      | Inr options' \<Rightarrow> Inr (VEllipsis, options')))))"

section \<open>FunctionParser: parameters and results\<close>

text \<open>
  The attributes of a \<^verbatim>\<open>FunctionParser\<close> that \<^verbatim>\<open>parse_params\<close>, \<^verbatim>\<open>parse_result\<close> and the
  generator wrapper read. \<open>positional_fields\<close> is the dict from argument index to field,
  \<open>positional_only_fields\<close> the list of \<^verbatim>\<open>(i, field)\<close> pairs; \<^verbatim>\<open>__init__\<close> sets \<^verbatim>\<open>pos_var\<close> and
  \<^verbatim>\<open>pos_var_index\<close> together.
\<close>

record FunctionParser =
  pos_var :: "string option"
  pos_var_index :: "nat option"
  position_type :: "ptype option"
  positional_fields :: "(nat \<times> SchemaField) list"
  positional_only_fields :: "(nat \<times> SchemaField) list"
  return_type :: "ptype option"
  is_generator :: bool
  is_async_generator :: bool
  generator_yield_type :: "ptype option"
  generator_send_type :: "ptype option"
  generator_return_type :: "ptype option"

type_synonym transformer = "pyval \<Rightarrow> ptype \<Rightarrow> exn + pyval"

type_synonym kwargs = "(string \<times> pyval) list"

definition unprovided :: "pyval \<Rightarrow> bool" where
  "unprovided v = (v = VEllipsis)"

definition parse_pos_type ::
  "transformer \<Rightarrow> FunctionParser \<Rightarrow> nat \<Rightarrow> pyval \<Rightarrow> RuntimeOptions \<Rightarrow> exn + (pyval \<times> RuntimeOptions)" where
  "parse_pos_type tr p index v options =
     (case position_type p of
        None \<Rightarrow> Inr (v, options)
      | Some pos_type \<Rightarrow>
          (case tr v pos_type of
             Inr r \<Rightarrow> Inr (r, options)
           | Inl e \<Rightarrow>
               (let error = ParseError (ItemIndex index) pos_type v e
                in if invalid_items options = PRESERVE
                   then Inr (v, collect_waring options (ErrorMessage error))
                   else if invalid_items options = EXCLUDE
                   then Inr (VEllipsis, collect_waring options (ErrorMessage error))
                   else (case handle_error options error False of
                           Inl x \<Rightarrow> Inl x
                         | Inr options' \<Rightarrow> Inr (v, options')))))"

text \<open>
  Step 1 of \<^verbatim>\<open>parse_params\<close>: the loop over \<^verbatim>\<open>enumerate(args)\<close>. The state is
  \<open>(parsed_args, parsed_keys, context)\<close>.
\<close>

type_synonym pstate = "pyval list \<times> string list \<times> RuntimeOptions"

fun parse_args ::
  "transformer \<Rightarrow> FunctionParser \<Rightarrow> nat \<Rightarrow> pyval list \<Rightarrow> pstate \<Rightarrow> exn + pstate" where
  "parse_args tr p i [] st = Inr st"
| "parse_args tr p i (arg # rest) (parsed_args, parsed_keys, options) =
     (if truthy_str (pos_var p) \<and> (case pos_var_index p of Some j \<Rightarrow> j \<le> i | None \<Rightarrow> False) then
        (case parse_pos_type tr p i arg options of
           Inl e \<Rightarrow> Inl e
         | Inr (a, options') \<Rightarrow>
             if unprovided a then parse_args tr p (Suc i) rest (parsed_args, parsed_keys, options')
             else parse_args tr p (Suc i) rest (parsed_args @ [a], parsed_keys, options'))
      else
        (case map_of (positional_fields p) i of
           None \<Rightarrow> parse_args tr p (Suc i) rest (parsed_args @ [arg], parsed_keys, options)
         | Some f \<Rightarrow>
             if no_input_of f arg options then
               (let a = get_default f options in
                if unprovided a then parse_args tr p (Suc i) rest (parsed_args, parsed_keys, options)
                else parse_args tr p (Suc i) rest (parsed_args @ [a], parsed_keys, options))
             else
               (case parse_value tr f arg options of
                  Inl e \<Rightarrow> Inl e
                | Inr (a, options') \<Rightarrow>
                    if unprovided a
                    then parse_args tr p (Suc i) rest (parsed_args, parsed_keys @ [attname f], options')
                    else parse_args tr p (Suc i) rest
                           (parsed_args @ [a], parsed_keys @ [attname f], options'))))"

text \<open>Step 2: the loop over \<^verbatim>\<open>self.positional_only_fields\<close>.\<close>

fun check_positional_only :: "(nat \<times> SchemaField) list \<Rightarrow> pstate \<Rightarrow> exn + pstate" where
  "check_positional_only [] st = Inr st"
| "check_positional_only ((index, f) # rest) (parsed_args, parsed_keys, options) =
     (if attname f \<in> set parsed_keys then
        check_positional_only rest (parsed_args, parsed_keys, options)
      else if is_required f options then
        (case handle_error options (AbsenceError (attname f)) False of
           Inl e \<Rightarrow> Inl e
         | Inr options' \<Rightarrow> check_positional_only rest (parsed_args, parsed_keys, options'))
      else
        (let d = get_default f options in
         if \<not> unprovided d
         then check_positional_only rest (parsed_args @ [d], parsed_keys @ [attname f], options)
         else check_positional_only rest (parsed_args, parsed_keys, options)))"

text \<open>
  \<^verbatim>\<open>parse_params\<close>. \<^verbatim>\<open>parse_data\<close> is \<^verbatim>\<open>BaseParser.parse_data\<close> (\<^verbatim>\<open>base.py\<close>, not among the
  sources): it is the parameter \<open>parse_data\<close>, called with the keyword arguments, the
  context and the excluded keys.
\<close>

type_synonym data_parser = "kwargs \<Rightarrow> RuntimeOptions \<Rightarrow> string list \<Rightarrow> exn + (kwargs \<times> RuntimeOptions)"

definition parse_params ::
  "transformer \<Rightarrow> data_parser \<Rightarrow> FunctionParser \<Rightarrow> pyval list \<Rightarrow> kwargs \<Rightarrow> RuntimeOptions
     \<Rightarrow> exn + (pyval list \<times> kwargs \<times> RuntimeOptions)" where
  "parse_params tr parse_data p args kw options =
     (case parse_args tr p 0 args ([], [], options) of
        Inl e \<Rightarrow> Inl e
      | Inr st1 \<Rightarrow>
          (case check_positional_only (positional_only_fields p) st1 of
             Inl e \<Rightarrow> Inl e
           | Inr (parsed_args, parsed_keys, options2) \<Rightarrow>
               (case parse_data kw options2 parsed_keys of
                  Inl e \<Rightarrow> Inl e
                | Inr (parsed_kwargs, options3) \<Rightarrow>
                    (case raise_error options3 of
                       Inl e \<Rightarrow> Inl e
                     | Inr options4 \<Rightarrow> Inr (parsed_args, parsed_kwargs, options4)))))"

definition parse_result ::
  "transformer \<Rightarrow> FunctionParser \<Rightarrow> pyval \<Rightarrow> RuntimeOptions \<Rightarrow> exn + (pyval \<times> RuntimeOptions)" where
  "parse_result tr p result options =
     (case return_type p of
        None \<Rightarrow> Inr (result, options)
      | Some rt \<Rightarrow>
          (case tr result rt of
             Inr r \<Rightarrow> Inr (r, options)
           | Inl e \<Rightarrow>
               (case handle_error options (ParseError (ItemName ''<return>'') rt result e) True of
                  Inl x \<Rightarrow> Inl x
                | Inr options' \<Rightarrow> Inr (result, options'))))"

definition do_parse_generator :: "FunctionParser \<Rightarrow> bool" where
  "do_parse_generator p =
     ((is_generator p \<or> is_async_generator p) \<and>
      (generator_send_type p \<noteq> None \<or> generator_yield_type p \<noteq> None
       \<or> generator_return_type p \<noteq> None))"

section \<open>FunctionParser: calls and generators\<close>

text \<open>
  \<^verbatim>\<open>get_params\<close> for a callable with no reserved first parameter (\<^verbatim>\<open>first_reserve\<close> false):
  the receiver logic is left out. The wrapped callable is the parameter \<open>func\<close>.
\<close>

type_synonym callable = "pyval list \<Rightarrow> kwargs \<Rightarrow> exn + pyval"

definition get_params ::
  "transformer \<Rightarrow> data_parser \<Rightarrow> FunctionParser \<Rightarrow> pyval list \<Rightarrow> kwargs \<Rightarrow> RuntimeOptions \<Rightarrow> bool
     \<Rightarrow> exn + (pyval list \<times> kwargs \<times> RuntimeOptions)" where
  "get_params tr parse_data p args kw options parse_params_flag =
     (if parse_params_flag then parse_params tr parse_data p args kw options
      else Inr (args, kw, options))"



definition digit_char :: "nat \<Rightarrow> char" where
  "digit_char n = ''0123456789'' ! n"

fun show_nat :: "nat \<Rightarrow> string" where
  "show_nat n = (if n < 10 then [digit_char n] else show_nat (n div 10) @ [digit_char (n mod 10)])"




text \<open>
  The wrapper \<^verbatim>\<open>sync_generator\<close> is a generator itself. It is suspended either before its
  first statement (\<open>WStart\<close>, holding the object the callable returned) or at
  \<^verbatim>\<open>sent = yield item\<close> (\<open>WSuspended generator i\<close>); the context goes with it. One resumption
  ends in a yield, a return (\<^verbatim>\<open>StopIteration(result)\<close> for the consumer) or an exception.
  A \<^verbatim>\<open>StopIteration\<close> that leaves the body of a generator, by the bare \<^verbatim>\<open>raise\<close> or out of
  \<^verbatim>\<open>generator.send(sent)\<close>, reaches the consumer as \<^verbatim>\<open>RuntimeError\<close> (PEP 479).
\<close>

datatype wstate = WStart pyval RuntimeOptions | WSuspended nat nat RuntimeOptions







text \<open>\<^verbatim>\<open>sync_call\<close> and \<^verbatim>\<open>async_call\<close> (awaiting is transparent here).\<close>

datatype call_result = Value pyval | Generator wstate

definition sync_call ::
  "transformer \<Rightarrow> data_parser \<Rightarrow> FunctionParser \<Rightarrow> callable \<Rightarrow> pyval list \<Rightarrow> kwargs \<Rightarrow> RuntimeOptions
     \<Rightarrow> bool \<Rightarrow> bool \<Rightarrow> exn + (call_result \<times> RuntimeOptions)" where
  "sync_call tr parse_data p func args kw options parse_params_flag parse_result_flag =
     (case get_params tr parse_data p args kw options parse_params_flag of
        Inl e \<Rightarrow> Inl e
      | Inr (args', kw', options') \<Rightarrow>
          (case func args' kw' of
             Inl e \<Rightarrow> Inl e
           | Inr result \<Rightarrow>
               if parse_result_flag then
                 (if do_parse_generator p then Inr (Generator (WStart result options'), options')
                  else (case parse_result tr p result options' of
                          Inl e \<Rightarrow> Inl e
                        | Inr (r, options'') \<Rightarrow> Inr (Value r, options'')))
               else Inr (Value result, options')))"

definition async_call ::
  "transformer \<Rightarrow> data_parser \<Rightarrow> FunctionParser \<Rightarrow> callable \<Rightarrow> pyval list \<Rightarrow> kwargs \<Rightarrow> RuntimeOptions
     \<Rightarrow> bool \<Rightarrow> bool \<Rightarrow> exn + (pyval \<times> RuntimeOptions)" where
  "async_call tr parse_data p func args kw options parse_params_flag parse_result_flag =
     (case get_params tr parse_data p args kw options parse_params_flag of
        Inl e \<Rightarrow> Inl e
      | Inr (args', kw', options') \<Rightarrow>
          (case func args' kw' of
             Inl e \<Rightarrow> Inl e
           | Inr result \<Rightarrow>
               if parse_result_flag then parse_result tr p result options'
               else Inr (result, options')))"

section \<open>FunctionParser: the default-order check\<close>







section \<open>Field aliases\<close>

definition get_alias :: "Field \<Rightarrow> string \<Rightarrow> (string \<Rightarrow> pyval) option \<Rightarrow> string" where
  "get_alias f att generator =
     (if truthy_str (alias_str f) then the (alias_str f)
      else (case (case alias_generator f of Some g \<Rightarrow> Some g | None \<Rightarrow> generator) of
              None \<Rightarrow> att
            | Some g \<Rightarrow> (case g att of VStr a \<Rightarrow> (if a \<noteq> [] then a else att) | _ \<Rightarrow> att)))"

text \<open>
  \<^verbatim>\<open>get_alias_from\<close>. The local variable \<^verbatim>\<open>alias_from\<close> is either the fresh one-element list
  \<^verbatim>\<open>[self.alias_from]\<close> or the very list object the field holds; \<^verbatim>\<open>alias_from.append\<close>
  changes the list it names. The result is the set of aliases and the heap afterwards.
\<close>

datatype local_list = Fresh "alias_item list" | Shared nat

fun truthy_alias_from :: "heap \<Rightarrow> alias_from_t \<Rightarrow> bool" where
  "truthy_alias_from h AFNone = False"
| "truthy_alias_from h (AFOne (AStr s)) = (s \<noteq> [])"
| "truthy_alias_from h (AFOne (ACall g)) = True"
| "truthy_alias_from h (AFList a) = (case h a of Some xs \<Rightarrow> xs \<noteq> [] | None \<Rightarrow> False)"

fun list_append :: "heap \<Rightarrow> local_list \<Rightarrow> alias_item \<Rightarrow> heap \<times> local_list" where
  "list_append h (Fresh xs) x = (h, Fresh (xs @ [x]))"
| "list_append h (Shared a) x = (h(a := Some (the (h a) @ [x])), Shared a)"

fun list_items :: "heap \<Rightarrow> local_list \<Rightarrow> alias_item list" where
  "list_items h (Fresh xs) = xs"
| "list_items h (Shared a) = the (h a)"

fun nonempty_strs :: "pyval list \<Rightarrow> string list" where
  "nonempty_strs [] = []"
| "nonempty_strs (VStr a # vs) = (if a \<noteq> [] then a # nonempty_strs vs else nonempty_strs vs)"
| "nonempty_strs (v # vs) = nonempty_strs vs"

fun add_alias :: "string \<Rightarrow> alias_item \<Rightarrow> string set \<Rightarrow> string set" where
  "add_alias att item aliases =
     (case (case item of ACall g \<Rightarrow> g att | AStr a \<Rightarrow> VStr a) of
        VList vs \<Rightarrow> aliases \<union> set (nonempty_strs vs)
      | VStr a \<Rightarrow> (if a \<noteq> [] then insert a aliases else aliases)
      | _ \<Rightarrow> aliases)"

definition get_alias_from ::
  "heap \<Rightarrow> Field \<Rightarrow> string \<Rightarrow> (string \<Rightarrow> pyval) option \<Rightarrow> string set \<times> heap" where
  "get_alias_from h f att generator =
     (if truthy_alias_from h (alias_from f) then
        (let l = (case alias_from f of AFList a \<Rightarrow> Shared a | AFOne x \<Rightarrow> Fresh [x] | AFNone \<Rightarrow> Fresh []);
             (h', l') = (case generator of Some g \<Rightarrow> list_append h l (ACall g) | None \<Rightarrow> (h, l))
         in (fold (add_alias att) (list_items h' l') {att}, h'))
      else ({att}, h))"

section \<open>Discriminated unions\<close>

definition get_const :: "ptype \<Rightarrow> pyval" where
  "get_const t = (case t of RuleT n c \<Rightarrow> c | _ \<Rightarrow> VEllipsis)"

fun is_int_str_bool :: "pyval \<Rightarrow> bool" where
  "is_int_str_bool (VInt n) = True"
| "is_int_str_bool (VStr s) = True"
| "is_int_str_bool (VBool b) = True"
| "is_int_str_bool v = False"

text \<open>The \<^verbatim>\<open>for arg in comb.args\<close> loop of \<^verbatim>\<open>validate_annotation\<close>, building the map.\<close>

fun discriminator_loop ::
  "string \<Rightarrow> ptype list \<Rightarrow> (pyval \<times> ptype) list \<Rightarrow> exn + (pyval \<times> ptype) list" where
  "discriminator_loop d [] m = Inr m"
| "discriminator_loop d (arg # rest) m =
     (case arg of
        SchemaT n fs \<Rightarrow>
          (case map_of fs d of
             None \<Rightarrow> Inl (ValueError ''discriminator was not find in type'')
           | Some ft \<Rightarrow>
               (let const = get_const ft in
                if \<not> is_int_str_bool const
                then Inl (ValueError ''there is no common type const set for this field'')
                else if dict_lookup m const \<noteq> None
                then Inl (ValueError ''got a duplicate value'')
                else discriminator_loop d rest (m @ [(const, arg)])))
      | _ \<Rightarrow> Inl (ValueError ''got a type that not instance of SchemaMeta''))"

text \<open>
  What the loop asks of a member of the combination, in one place: it is a schema class,
  it has a field for the tag name \<open>d\<close>, and the constant of that field's type is an
  \<^verbatim>\<open>int\<close>, a \<^verbatim>\<open>str\<close> or a \<^verbatim>\<open>bool\<close>; \<open>member_const\<close> is that constant.
\<close>

definition member_const :: "string \<Rightarrow> ptype \<Rightarrow> pyval option" where
  "member_const d arg =
     (case arg of
        SchemaT n fs \<Rightarrow>
          (case map_of fs d of
             Some ft \<Rightarrow> (if is_int_str_bool (get_const ft) then Some (get_const ft) else None)
           | None \<Rightarrow> None)
      | _ \<Rightarrow> None)"

text \<open>The map from constant to member, in the order of the members.\<close>

definition entries :: "string \<Rightarrow> ptype list \<Rightarrow> (pyval \<times> ptype) list" where
  "entries d args = map (\<lambda>A. (the (member_const d A), A)) args"

definition validate_annotation :: "SchemaField \<Rightarrow> exn + SchemaField" where
  "validate_annotation sf =
     (if truthy_str (discriminator (field sf)) then
        (case (case type sf of Logical comb \<Rightarrow> comb | _ \<Rightarrow> None) of
           None \<Rightarrow> Inl (TypeError ''got a common type which does not support discriminator'')
         | Some (combinator, args) \<Rightarrow>
             if combinator = ''|'' \<or> combinator = ''^'' then
               (case discriminator_loop (the (discriminator (field sf))) args [] of
                  Inl e \<Rightarrow> Inl e
                | Inr m \<Rightarrow> Inr (sf\<lparr>discriminator_map := m\<rparr>))
             else Inl (TypeError ''got a logical type with combinator which does not support discriminator''))
      else Inr sf)"

section \<open>ClassParser: composition from the bases\<close>











section \<open>Example data\<close>

text \<open>
  A small transformer to run the model on concrete inputs (the real one is the external
  rule engine): \<^verbatim>\<open>int\<close> and \<^verbatim>\<open>str\<close> convert into each other, \<^verbatim>\<open>None\<close> converts to the string
  \<^verbatim>\<open>"None"\<close>, a \<^verbatim>\<open>Rule\<close> with a constant accepts
  that constant, a schema accepts a dict whose entries fit its fields, and a logical
  combination accepts what one of its members accepts.
\<close>

definition digit_val :: "char \<Rightarrow> nat option" where
  "digit_val c =
     map_of [(CHR ''0'', 0), (CHR ''1'', 1), (CHR ''2'', 2), (CHR ''3'', 3), (CHR ''4'', 4),
             (CHR ''5'', 5), (CHR ''6'', 6), (CHR ''7'', 7), (CHR ''8'', 8), (CHR ''9'', 9)] c"

fun digits_val :: "string \<Rightarrow> nat \<Rightarrow> nat option" where
  "digits_val [] acc = Some acc"
| "digits_val (c # cs) acc =
     (case digit_val c of None \<Rightarrow> None | Some d \<Rightarrow> digits_val cs (10 * acc + d))"

definition int_of_str :: "string \<Rightarrow> int option" where
  "int_of_str s =
     (case s of
        [] \<Rightarrow> None
      | c # cs \<Rightarrow>
          if c = CHR ''-'' then (if cs = [] then None else map_option (\<lambda>n. - int n) (digits_val cs 0))
          else map_option int (digits_val s 0))"

definition show_int :: "int \<Rightarrow> string" where
  "show_int n = (if n < 0 then CHR ''-'' # show_nat (nat (- n)) else show_nat (nat n))"

fun scalar_ok :: "pyval \<Rightarrow> ptype \<Rightarrow> bool" where
  "scalar_ok (VInt n) (Common t) = (t = ''int'')"
| "scalar_ok (VStr s) (Common t) = (t = ''str'')"
| "scalar_ok v (RuleT n c) = (hashable v \<and> py_eq v c)"
| "scalar_ok v t = False"

fun schema_ok :: "pyval \<Rightarrow> ptype \<Rightarrow> bool" where
  "schema_ok (VDict d) (SchemaT n fs) = list_all (\<lambda>(k, ft). scalar_ok (dict_get d (VStr k)) ft) fs"
| "schema_ok v t = False"

fun sample_transformer :: transformer where
  "sample_transformer (VInt n) (Common t) =
     (if t = ''int'' then Inr (VInt n) else if t = ''str'' then Inr (VStr (show_int n))
      else Inl (TypeError ''cannot convert''))"
| "sample_transformer (VStr s) (Common t) =
     (if t = ''str'' then Inr (VStr s)
      else if t = ''int'' then
        (case int_of_str s of
           Some n \<Rightarrow> Inr (VInt n)
         | None \<Rightarrow> Inl (ValueError ''invalid literal for int()''))
      else Inl (TypeError ''cannot convert''))"
| "sample_transformer VNone (Common t) =
     (if t = ''str'' then Inr (VStr ''None'') else Inl (TypeError ''cannot convert''))"
| "sample_transformer v (SchemaT n fs) =
     (if schema_ok v (SchemaT n fs) then Inr v else Inl (ValueError ''invalid schema data''))"
| "sample_transformer v (Logical (Some (c, ts))) =
     (if list_ex (schema_ok v) ts then Inr v else Inl (ValueError ''no member of the combination fits''))"
| "sample_transformer v t = Inl (TypeError ''cannot convert'')"

text \<open>The defaults of the keyword arguments of \<^verbatim>\<open>Field.__init__\<close>.\<close>

definition default_kwargs :: Field_kwargs where
  "default_kwargs =
     \<lparr> kw_alias = AliasNone, kw_alias_from = AFNone, kw_required = None, kw_readonly = None,
       kw_writeonly = None, kw_mode = None, kw_default = DValue VEllipsis,
       kw_deprecated = DepBool False, kw_discriminator = None, kw_no_input = NoBool False,
       kw_no_output = NoBool False, kw_on_error = None \<rparr>"

text \<open>The field \<^verbatim>\<open>Field()\<close> builds from those defaults, and a fresh context with the throw
  policy and nothing collected.\<close>

definition plain_field :: Field where
  "plain_field =
     \<lparr> alias_str = None, alias_generator = None, alias_from = AFNone, deprecated = False,
       deprecated_to = None, no_input = NoBool False, no_output = NoBool False,
       required = ReqBool True, default = DValue VEllipsis, discriminator = None,
       on_error = None, mode = None \<rparr>"

definition fresh_options :: RuntimeOptions where
  "fresh_options =
     \<lparr> RuntimeOptions.mode = None, ignore_required = False,
       RuntimeOptions.no_default = False, force_default = DValue VEllipsis,
       invalid_values = THROW, invalid_items = THROW, errors = [], warnings = [] \<rparr>"

definition int_field :: "string \<Rightarrow> Field \<Rightarrow> SchemaField" where
  "int_field n f =
     \<lparr> attname = n, name = n, type = Common ''int'', field = f, discriminator_map = [] \<rparr>"

text \<open>A parser of a plain callable with no parameters and no annotations.\<close>

definition plain_parser :: FunctionParser where
  "plain_parser =
     \<lparr> pos_var = None, pos_var_index = None, position_type = None, positional_fields = [],
       positional_only_fields = [], return_type = None, is_generator = False,
       is_async_generator = False, generator_yield_type = None, generator_send_type = None,
       generator_return_type = None \<rparr>"

text \<open>A \<^verbatim>\<open>parse_data\<close> that accepts every keyword argument as it is.\<close>

definition keep_data :: data_parser where
  "keep_data kw options parsed_keys = Inr (kw, options)"



text \<open>
  A union of two schemas tagged \<^verbatim>\<open>1\<close> and \<^verbatim>\<open>2\<close> by the field \<^verbatim>\<open>tag\<close>, and a field of that
  union with the discriminator \<^verbatim>\<open>tag\<close>.
\<close>

definition tagged :: "string \<Rightarrow> int \<Rightarrow> ptype" where
  "tagged n c = SchemaT n [(''tag'', RuleT ''Literal'' (VInt c))]"

definition union_field :: "Field \<Rightarrow> SchemaField" where
  "union_field f =
     \<lparr> attname = ''pet'', name = ''pet'',
       type = Logical (Some (''|'', [tagged ''Cat'' 1, tagged ''Dog'' 2])),
       field = f\<lparr>discriminator := Some ''tag''\<rparr>, discriminator_map = [] \<rparr>"



section \<open>Properties\<close>

subsection \<open>Frame lemmas\<close>

lemma collect_waring_frame:
  "RuntimeOptions.mode (collect_waring options w) = RuntimeOptions.mode options"
  "ignore_required (collect_waring options w) = ignore_required options"
  "RuntimeOptions.no_default (collect_waring options w) = RuntimeOptions.no_default options"
  "force_default (collect_waring options w) = force_default options"
  "invalid_values (collect_waring options w) = invalid_values options"
  "invalid_items (collect_waring options w) = invalid_items options"
  "errors (collect_waring options w) = errors options"
  "warnings (collect_waring options w) = warnings options @ [w]"
  by (simp_all add: collect_waring_def)

lemma get_on_error_deprecation_notice:
  "get_on_error sf (deprecation_notice sf options) = get_on_error sf options"
  by (simp add: get_on_error_def deprecation_notice_def collect_waring_frame)

lemma is_required_deprecation_notice:
  "is_required sf (deprecation_notice sf options) = is_required sf options"
  by (simp add: is_required_def deprecation_notice_def collect_waring_frame split: required_t.split)

lemma parse_value_failure:
  assumes tt: "target_type sf v = Inr t"
    and fail: "tr v t = Inl e"
  shows "parse_value tr sf v options =
     (let options' = deprecation_notice sf options;
          error = ParseError (ItemName (name sf)) (type sf) v e
      in if get_on_error sf options = EXCLUDE then
        (if is_required sf options
         then Inr (VEllipsis, options'\<lparr>errors := errors options' @ [error]\<rparr>)
         else Inr (VEllipsis, options'\<lparr>warnings := warnings options' @ [ErrorMessage error]\<rparr>))
      else if get_on_error sf options = PRESERVE
      then Inr (v, options'\<lparr>warnings := warnings options' @ [ErrorMessage error]\<rparr>)
      else Inr (VEllipsis, options'\<lparr>errors := errors options' @ [error]\<rparr>))"
  using tt fail
  by (simp add: parse_value_def Let_def handle_error_def collect_waring_def
      get_on_error_deprecation_notice is_required_deprecation_notice)

subsection \<open>The error policy of \<open>parse_value\<close>\<close>

text \<open>
  Claim C1. When the transformer rejects the raw value, \<^verbatim>\<open>parse_value\<close> builds the
  \<open>ParseError\<close> of the field and resolves the policy \<open>get_on_error\<close> gives (the field's own
  \<^verbatim>\<open>on_error\<close>, else the options' \<^verbatim>\<open>invalid_values\<close>): under exclude, a field that is required
  has the error handed to \<^verbatim>\<open>handle_error\<close> (it joins the error buffer, which \<^verbatim>\<open>raise_error\<close>
  raises), any other field has the value dropped (the sentinel is returned) and a warning
  recorded; under preserve the raw value is returned and a warning recorded; under
  throw, as under any other policy, the error is handed to \<^verbatim>\<open>handle_error\<close>. Where the
  error is handed over, \<^verbatim>\<open>raise_error\<close> on the context that results raises it with the
  errors buffered before.
\<close>

theorem parse_value_error_policy:
  assumes tt: "target_type sf v = Inr t"
    and fail: "tr v t = Inl e"
  shows "parse_value tr sf v options =
     (let options' = deprecation_notice sf options;
          error = ParseError (ItemName (name sf)) (type sf) v e
      in if get_on_error sf options = EXCLUDE then
        (if is_required sf options
         then Inr (VEllipsis, options'\<lparr>errors := errors options' @ [error]\<rparr>)
         else Inr (VEllipsis, options'\<lparr>warnings := warnings options' @ [ErrorMessage error]\<rparr>))
      else if get_on_error sf options = PRESERVE
      then Inr (v, options'\<lparr>warnings := warnings options' @ [ErrorMessage error]\<rparr>)
      else Inr (VEllipsis, options'\<lparr>errors := errors options' @ [error]\<rparr>))
   \<and> ((get_on_error sf options = EXCLUDE \<and> is_required sf options)
        \<or> (get_on_error sf options \<noteq> EXCLUDE \<and> get_on_error sf options \<noteq> PRESERVE) \<longrightarrow>
       (\<exists>c'. parse_value tr sf v options = Inr (VEllipsis, c')
          \<and> raise_error c' = Inl (CollectedParseError
                (errors options @ [ParseError (ItemName (name sf)) (type sf) v e]))))"
proof -
  note pv = parse_value_failure [where tr = tr and options = options, OF tt fail]
  have e: "errors (deprecation_notice sf options) = errors options"
    by (simp add: deprecation_notice_def collect_waring_frame)
  have "\<exists>c'. parse_value tr sf v options = Inr (VEllipsis, c')
          \<and> raise_error c' = Inl (CollectedParseError
                (errors options @ [ParseError (ItemName (name sf)) (type sf) v e]))"
    if "(get_on_error sf options = EXCLUDE \<and> is_required sf options)
        \<or> (get_on_error sf options \<noteq> EXCLUDE \<and> get_on_error sf options \<noteq> PRESERVE)"
    using that unfolding pv by (auto simp: Let_def raise_error_def e)
  with pv show ?thesis by blast
qed

text \<open>The four branches on the input \<^verbatim>\<open>"x"\<close> for an \<^verbatim>\<open>int\<close> field.\<close>

lemma int_of_str_x: "int_of_str ''x'' = None"
  by (simp add: int_of_str_def digit_val_def)

lemma sample_x: "sample_transformer (VStr ''x'') (Common ''int'') = Inl (ValueError ''invalid literal for int()'')"
  by (simp add: int_of_str_x)

lemma target_type_plain: "discriminator_map sf = [] \<Longrightarrow> target_type sf v = Inr (type sf)"
  by (simp add: target_type_def)

theorem parse_value_error_policy_witness:
  "parse_value sample_transformer
     (int_field ''age'' (plain_field\<lparr>on_error := Some ''exclude'', required := ReqBool False\<rparr>))
     (VStr ''x'') fresh_options
   = Inr (VEllipsis, fresh_options\<lparr>warnings :=
       [ErrorMessage (ParseError (ItemName ''age'') (Common ''int'') (VStr ''x'')
          (ValueError ''invalid literal for int()''))]\<rparr>)
   \<and> parse_value sample_transformer
     (int_field ''age'' (plain_field\<lparr>on_error := Some ''exclude''\<rparr>))
     (VStr ''x'') fresh_options
   = Inr (VEllipsis, fresh_options\<lparr>errors :=
       [ParseError (ItemName ''age'') (Common ''int'') (VStr ''x'')
          (ValueError ''invalid literal for int()'')]\<rparr>)
   \<and> parse_value sample_transformer
     (int_field ''age'' (plain_field\<lparr>on_error := Some ''preserve''\<rparr>))
     (VStr ''x'') fresh_options
   = Inr (VStr ''x'', fresh_options\<lparr>warnings :=
       [ErrorMessage (ParseError (ItemName ''age'') (Common ''int'') (VStr ''x'')
          (ValueError ''invalid literal for int()''))]\<rparr>)
   \<and> parse_value sample_transformer (int_field ''age'' plain_field) (VStr ''x'') fresh_options
   = Inr (VEllipsis, fresh_options\<lparr>errors :=
       [ParseError (ItemName ''age'') (Common ''int'') (VStr ''x'')
          (ValueError ''invalid literal for int()'')]\<rparr>)"
proof -
  let ?e = "ValueError ''invalid literal for int()''"
  have fail: "sample_transformer (VStr ''x'') (Common ''int'') = Inl ?e"
    by (rule sample_x)
  have tt: "target_type (int_field ''age'' f) (VStr ''x'') = Inr (Common ''int'')" for f
    by (simp add: target_type_def int_field_def)
  note pv = parse_value_error_policy
    [where tr = sample_transformer and options = fresh_options, OF tt fail, THEN conjunct1]
  show ?thesis
    unfolding pv
    by (simp add: int_field_def plain_field_def fresh_options_def
        get_on_error_def is_required_def deprecation_notice_def EXCLUDE_def PRESERVE_def THROW_def)
qed

subsection \<open>The option \<open>ignore_required\<close>\<close>

lemma is_required_ignore: "ignore_required options \<Longrightarrow> \<not> is_required sf options"
  by (simp add: is_required_def)

lemma check_positional_only_ignore_required:
  "ignore_required options \<Longrightarrow>
     \<exists>parsed_args' parsed_keys'.
       check_positional_only fs (parsed_args, parsed_keys, options)
         = Inr (parsed_args', parsed_keys', options)"
proof (induction fs arbitrary: parsed_args parsed_keys)
  case Nil
  then show ?case by simp
next
  case (Cons x fs)
  obtain index f where x: "x = (index, f)" by (cases x)
  from Cons.prems have nr: "\<not> is_required f options" by (rule is_required_ignore)
  show ?case
    using Cons.IH [OF Cons.prems] nr by (simp add: x Let_def)
qed

text \<open>
  Claim C10. When the runtime options set \<^verbatim>\<open>ignore_required\<close>, \<^verbatim>\<open>is_required\<close> is false
  whatever the field declares. So an invalid value under the exclude policy is dropped
  with a warning, as for an optional field, and the check of the positional-only fields
  hands no \<open>AbsenceError\<close> to the context: it returns with the context unchanged.
\<close>

theorem ignore_required_lifts_requiredness:
  assumes "ignore_required options"
  shows "\<not> is_required sf options
    \<and> (\<forall>tr v t e. target_type sf v = Inr t \<longrightarrow> tr v t = Inl e \<longrightarrow> get_on_error sf options = EXCLUDE \<longrightarrow>
          parse_value tr sf v options =
            Inr (VEllipsis, collect_waring (deprecation_notice sf options)
                   (ErrorMessage (ParseError (ItemName (name sf)) (type sf) v e))))
    \<and> (\<forall>fs parsed_args parsed_keys. \<exists>parsed_args' parsed_keys'.
          check_positional_only fs (parsed_args, parsed_keys, options)
            = Inr (parsed_args', parsed_keys', options))"
proof (intro conjI allI impI)
  show nr: "\<not> is_required sf options"
    using assms by (rule is_required_ignore)
  show "parse_value tr sf v options =
            Inr (VEllipsis, collect_waring (deprecation_notice sf options)
                   (ErrorMessage (ParseError (ItemName (name sf)) (type sf) v e)))"
    if "target_type sf v = Inr t" "tr v t = Inl e" "get_on_error sf options = EXCLUDE" for tr v t e
    using that nr
    by (simp add: parse_value_def Let_def get_on_error_deprecation_notice
        is_required_deprecation_notice)
  show "\<exists>parsed_args' parsed_keys'.
          check_positional_only fs (parsed_args, parsed_keys, options)
            = Inr (parsed_args', parsed_keys', options)" for fs parsed_args parsed_keys
    using assms by (rule check_positional_only_ignore_required)
qed

theorem ignore_required_lifts_requiredness_witness:
  "ignore_required (fresh_options\<lparr>ignore_required := True\<rparr>)
   \<and> required (field (int_field ''age'' (plain_field\<lparr>on_error := Some ''exclude''\<rparr>))) = ReqBool True
   \<and> is_required (int_field ''age'' (plain_field\<lparr>on_error := Some ''exclude''\<rparr>)) fresh_options
   \<and> \<not> is_required (int_field ''age'' (plain_field\<lparr>on_error := Some ''exclude''\<rparr>))
          (fresh_options\<lparr>ignore_required := True\<rparr>)
   \<and> parse_value sample_transformer (int_field ''age'' (plain_field\<lparr>on_error := Some ''exclude''\<rparr>))
        (VStr ''x'') (fresh_options\<lparr>ignore_required := True\<rparr>)
       = Inr (VEllipsis, fresh_options\<lparr>ignore_required := True, warnings :=
           [ErrorMessage (ParseError (ItemName ''age'') (Common ''int'') (VStr ''x'')
              (ValueError ''invalid literal for int()''))]\<rparr>)
   \<and> (\<exists>parsed_args' parsed_keys'.
        check_positional_only [(0, int_field ''age'' (plain_field\<lparr>on_error := Some ''exclude''\<rparr>))]
          ([], [], fresh_options\<lparr>ignore_required := True\<rparr>)
        = Inr (parsed_args', parsed_keys', fresh_options\<lparr>ignore_required := True\<rparr>))"
proof -
  let ?o = "fresh_options\<lparr>ignore_required := True\<rparr>"
  let ?sf = "int_field ''age'' (plain_field\<lparr>on_error := Some ''exclude''\<rparr>)"
  have ig: "ignore_required ?o" by simp
  note th = ignore_required_lifts_requiredness [OF ig, of ?sf]
  have a: "\<not> is_required ?sf ?o" using th by blast
  have tt: "target_type ?sf (VStr ''x'') = Inr (Common ''int'')"
    by (simp add: target_type_def int_field_def)
  have pol: "get_on_error ?sf ?o = EXCLUDE"
    by (simp add: get_on_error_def int_field_def plain_field_def EXCLUDE_def)
  have "parse_value sample_transformer ?sf (VStr ''x'') ?o
          = Inr (VEllipsis, collect_waring (deprecation_notice ?sf ?o)
                 (ErrorMessage (ParseError (ItemName (name ?sf)) (type ?sf) (VStr ''x'')
                    (ValueError ''invalid literal for int()''))))"
    using th tt sample_x pol by blast
  then have b: "parse_value sample_transformer ?sf (VStr ''x'') ?o
       = Inr (VEllipsis, fresh_options\<lparr>ignore_required := True, warnings :=
           [ErrorMessage (ParseError (ItemName ''age'') (Common ''int'') (VStr ''x'')
              (ValueError ''invalid literal for int()''))]\<rparr>)"
    by (simp add: deprecation_notice_def collect_waring_def int_field_def plain_field_def
        fresh_options_def)
  have c: "\<exists>parsed_args' parsed_keys'.
        check_positional_only [(0, ?sf)] ([], [], ?o) = Inr (parsed_args', parsed_keys', ?o)"
    using th by blast
  have d: "required (field ?sf) = ReqBool True" "is_required ?sf fresh_options"
    by (simp_all add: int_field_def plain_field_def is_required_def fresh_options_def)
  show ?thesis using ig a b c d by blast
qed

subsection \<open>Field construction\<close>

lemma is_prefix_iff: "is_prefix s t \<longleftrightarrow> (\<exists>q. t = s @ q)"
  by (induction s t rule: is_prefix.induct) auto

lemma str_in_iff: "str_in s t \<longleftrightarrow> (\<exists>p q. t = p @ s @ q)"
proof (induction t)
  case Nil
  then show ?case by auto
next
  case (Cons c t)
  show ?case
  proof
    assume "str_in s (c # t)"
    then consider "is_prefix s (c # t)" | "str_in s t" by auto
    then show "\<exists>p q. c # t = p @ s @ q"
    proof cases
      case 1
      then obtain q where "c # t = s @ q" by (auto simp: is_prefix_iff)
      then have "c # t = [] @ s @ q" by simp
      then show ?thesis by blast
    next
      case 2
      then obtain p q where "t = p @ s @ q" using Cons.IH by auto
      then have "c # t = (c # p) @ s @ q" by simp
      then show ?thesis by blast
    qed
  next
    assume "\<exists>p q. c # t = p @ s @ q"
    then obtain p q where pq: "c # t = p @ s @ q" by auto
    show "str_in s (c # t)"
    proof (cases p)
      case Nil
      with pq have "is_prefix s (c # t)" by (auto simp: is_prefix_iff)
      then show ?thesis by simp
    next
      case (Cons a p')
      with pq have "t = p' @ s @ q" by simp
      then have "str_in s t" using Cons.IH by auto
      then show ?thesis by simp
    qed
  qed
qed

lemma not_in_mode_iff:
  "not_in_mode x m \<longleftrightarrow> (\<exists>s md. x = NoStr s \<and> m = Some md \<and> md \<noteq> [] \<and> \<not> (\<exists>p q. md = p @ s @ q))"
  by (cases "(x, m)" rule: not_in_mode.cases) (auto simp: str_in_iff)

text \<open>
  Claim C7, as amended. \<^verbatim>\<open>Field.__init__\<close> fails exactly when a non-empty mode comes with
  readonly or writeonly, or readonly and writeonly are both set, or \<^verbatim>\<open>no_input\<close> or
  \<^verbatim>\<open>no_output\<close> is a string that does not occur as a contiguous substring in the field's
  non-empty mode (\<^verbatim>\<open>'w'\<close> for writeonly, else \<^verbatim>\<open>'r'\<close> for readonly, else the mode given).
  With no mode, no string is refused.
\<close>

theorem Field_init_fails_iff:
  "isl (Field_init kw) \<longleftrightarrow>
     (truthy_str (kw_mode kw) \<and> (truthy_bool (kw_readonly kw) \<or> truthy_bool (kw_writeonly kw)))
   \<or> (truthy_bool (kw_readonly kw) \<and> truthy_bool (kw_writeonly kw))
   \<or> (\<exists>s md. (kw_no_input kw = NoStr s \<or> kw_no_output kw = NoStr s)
         \<and> (if truthy_bool (kw_writeonly kw) then Some ''w''
             else if truthy_bool (kw_readonly kw) then Some ''r'' else kw_mode kw) = Some md
         \<and> md \<noteq> [] \<and> \<not> (\<exists>p q. md = p @ s @ q))"
  unfolding Field_init_def Let_def not_in_mode_iff
  by auto

theorem Field_init_fails_iff_witness:
  "isl (Field_init (default_kwargs\<lparr>kw_readonly := Some True, kw_no_input := NoStr ''w''\<rparr>))
   \<and> \<not> isl (Field_init (default_kwargs\<lparr>kw_readonly := Some True, kw_no_input := NoStr ''r''\<rparr>))
   \<and> \<not> isl (Field_init (default_kwargs\<lparr>kw_no_input := NoStr ''r''\<rparr>))
   \<and> isl (Field_init (default_kwargs\<lparr>kw_readonly := Some True, kw_writeonly := Some True\<rparr>))"
proof -
  note th = Field_init_fails_iff [unfolded str_in_iff [symmetric]]
  show ?thesis
    using th [of "default_kwargs\<lparr>kw_readonly := Some True, kw_no_input := NoStr ''w''\<rparr>"]
      th [of "default_kwargs\<lparr>kw_readonly := Some True, kw_no_input := NoStr ''r''\<rparr>"]
      th [of "default_kwargs\<lparr>kw_no_input := NoStr ''r''\<rparr>"]
      th [of "default_kwargs\<lparr>kw_readonly := Some True, kw_writeonly := Some True\<rparr>"]
    by (simp add: default_kwargs_def)
qed

text \<open>
  The claim as stated asks for a subset of the mode: with mode \<^verbatim>\<open>'rw'\<close>, the string \<^verbatim>\<open>'wr'\<close>
  has only letters of the mode, and readonly and writeonly are unset, yet the constructor
  fails.
\<close>

theorem Field_init_subset_counterexample:
  "Field_init (default_kwargs\<lparr>kw_mode := Some ''rw'', kw_no_input := NoStr ''wr''\<rparr>)
     = Inl (ValueError ''Field no_input is not in mode'')
   \<and> set ''wr'' \<subseteq> set ''rw''
   \<and> kw_readonly (default_kwargs\<lparr>kw_mode := Some ''rw'', kw_no_input := NoStr ''wr''\<rparr>) = None
   \<and> kw_writeonly (default_kwargs\<lparr>kw_mode := Some ''rw'', kw_no_input := NoStr ''wr''\<rparr>) = None
   \<and> kw_no_output (default_kwargs\<lparr>kw_mode := Some ''rw'', kw_no_input := NoStr ''wr''\<rparr>) = NoBool False"
  by (simp add: Field_init_def default_kwargs_def Let_def)

subsection \<open>Results\<close>

text \<open>
  Claim C6. For a plain or coroutine callable with a return type, wrapped with result
  parsing on, the call returns the transformer's result on the value the callable
  returned, applied once; when the transformer rejects the value the call fails with the
  \<open>ParseError\<close> for \<^verbatim>\<open><return>\<close>, whatever the policies in the context are.
\<close>

theorem return_value_coerced_once_always_fatal:
  assumes rt: "return_type p = Some rt"
    and plain: "\<not> is_generator p" "\<not> is_async_generator p"
    and gp: "get_params tr parse_data p args kw options parse_params_flag = Inr (args', kw', options')"
    and call: "func args' kw' = Inr result"
  shows "sync_call tr parse_data p func args kw options parse_params_flag True =
           (case tr result rt of
              Inr r \<Rightarrow> Inr (Value r, options')
            | Inl e \<Rightarrow> Inl (ParseError (ItemName ''<return>'') rt result e))
       \<and> async_call tr parse_data p func args kw options parse_params_flag True =
           (case tr result rt of
              Inr r \<Rightarrow> Inr (r, options')
            | Inl e \<Rightarrow> Inl (ParseError (ItemName ''<return>'') rt result e))"
  using assms
  by (simp add: sync_call_def async_call_def parse_result_def do_parse_generator_def
      handle_error_def split: sum.split)

theorem return_value_coerced_once_always_fatal_witness:
  "sync_call sample_transformer keep_data (plain_parser\<lparr>return_type := Some (Common ''int'')\<rparr>)
      (\<lambda>args kw. Inr (VStr ''x'')) [] []
      (fresh_options\<lparr>invalid_values := ''exclude'', invalid_items := ''exclude''\<rparr>) False True
     = Inl (ParseError (ItemName ''<return>'') (Common ''int'') (VStr ''x'')
              (ValueError ''invalid literal for int()''))
   \<and> async_call sample_transformer keep_data (plain_parser\<lparr>return_type := Some (Common ''int'')\<rparr>)
      (\<lambda>args kw. Inr (VStr ''x'')) [] []
      (fresh_options\<lparr>invalid_values := ''preserve''\<rparr>) False True
     = Inl (ParseError (ItemName ''<return>'') (Common ''int'') (VStr ''x'')
              (ValueError ''invalid literal for int()''))
   \<and> sync_call sample_transformer keep_data (plain_parser\<lparr>return_type := Some (Common ''str'')\<rparr>)
      (\<lambda>args kw. Inr (VInt 9)) [] [] fresh_options False True
     = Inr (Value (VStr ''9''), fresh_options)"
proof -
  let ?p = "plain_parser\<lparr>return_type := Some (Common ''int'')\<rparr>"
  let ?q = "plain_parser\<lparr>return_type := Some (Common ''str'')\<rparr>"
  have gp: "get_params sample_transformer keep_data p [] [] c False = Inr ([], [], c)" for p c
    by (simp add: get_params_def)
  have plain: "\<not> is_generator ?p" "\<not> is_async_generator ?p"
    "\<not> is_generator ?q" "\<not> is_async_generator ?q"
    by (simp_all add: plain_parser_def)
  have rt: "return_type ?p = Some (Common ''int'')" "return_type ?q = Some (Common ''str'')"
    by simp_all
  note a = return_value_coerced_once_always_fatal
    [where func = "\<lambda>args kw. Inr (VStr ''x'')" and tr = sample_transformer,
     OF rt(1) plain(1,2) gp refl]
  note b = return_value_coerced_once_always_fatal
    [where func = "\<lambda>args kw. Inr (VInt 9)" and tr = sample_transformer,
     OF rt(2) plain(3,4) gp refl]
  show ?thesis
    using a b by (simp add: int_of_str_x show_int_def digit_char_def)
qed

subsection \<open>The default-order check\<close>









subsection \<open>\<open>get_alias_from\<close> and the field's list\<close>

text \<open>
  Claim C9. A \<^verbatim>\<open>Field\<close> is to stay as it was created. With a list-valued \<^verbatim>\<open>alias_from\<close> and
  a generator, \<^verbatim>\<open>get_alias_from\<close> appends the generator to the very list the field holds:
  the list \<^verbatim>\<open>['a']\<close> at address 0 is \<^verbatim>\<open>['a', generator]\<close> after the call. With a string-valued
  \<^verbatim>\<open>alias_from\<close> the generator goes to a fresh list and the heap is left as it was.
\<close>

theorem get_alias_from_appends_to_field_list:
  "snd (get_alias_from ((\<lambda>a. None)(0 := Some [AStr ''a'']))
          (plain_field\<lparr>alias_from := AFList 0\<rparr>) ''x'' (Some (\<lambda>n. VStr (n @ ''_id'')))) 0
     = Some [AStr ''a'', ACall (\<lambda>n. VStr (n @ ''_id''))]
   \<and> fst (get_alias_from ((\<lambda>a. None)(0 := Some [AStr ''a'']))
          (plain_field\<lparr>alias_from := AFList 0\<rparr>) ''x'' (Some (\<lambda>n. VStr (n @ ''_id''))))
     = {''x'', ''a'', ''x_id''}
   \<and> snd (get_alias_from ((\<lambda>a. None)(0 := Some [AStr ''a'']))
          (plain_field\<lparr>alias_from := AFOne (AStr ''a'')\<rparr>) ''x'' (Some (\<lambda>n. VStr (n @ ''_id''))))
     = (\<lambda>a. None)(0 := Some [AStr ''a''])"
  by (auto simp add: get_alias_from_def plain_field_def Let_def)

subsection \<open>Composition from the bases\<close>













subsection \<open>Discriminated unions\<close>

lemma py_eq_sym: "py_eq u v \<Longrightarrow> py_eq v u"
  by (cases "(u, v)" rule: py_eq.cases) auto

lemma py_eq_trans: "py_eq u v \<Longrightarrow> py_eq v w \<Longrightarrow> py_eq u w"
  by (cases "(u, v)" rule: py_eq.cases; cases "(v, w)" rule: py_eq.cases)
     (auto split: if_splits)

lemma py_eq_scalar_hashable: "is_int_str_bool c \<Longrightarrow> py_eq c v \<Longrightarrow> hashable v"
  by (cases "(c, v)" rule: py_eq.cases) auto

lemma dict_lookup_append:
  "dict_lookup (m @ [(c, a)]) k =
     (case dict_lookup m k of Some v \<Rightarrow> Some v | None \<Rightarrow> (if py_eq c k then Some a else None))"
  by (induction m) auto

lemma member_const_Some:
  "member_const d arg = Some c \<longleftrightarrow>
     (\<exists>n fs ft. arg = SchemaT n fs \<and> map_of fs d = Some ft \<and> get_const ft = c \<and> is_int_str_bool c)"
  by (auto simp: member_const_def split: ptype.splits option.splits)

lemma member_const_literal: "member_const d arg = Some c \<Longrightarrow> is_int_str_bool c"
  by (auto simp: member_const_Some)

lemma discriminator_loop_step:
  "discriminator_loop d (arg # rest) m =
     (case member_const d arg of
        None \<Rightarrow> Inl (case arg of
                      SchemaT n fs \<Rightarrow>
                        (case map_of fs d of
                           None \<Rightarrow> ValueError ''discriminator was not find in type''
                         | Some ft \<Rightarrow> ValueError ''there is no common type const set for this field'')
                    | _ \<Rightarrow> ValueError ''got a type that not instance of SchemaMeta'')
      | Some c \<Rightarrow>
          if dict_lookup m c \<noteq> None then Inl (ValueError ''got a duplicate value'')
          else discriminator_loop d rest (m @ [(c, arg)]))"
  by (cases arg) (auto simp: member_const_def Let_def split: option.splits)

lemma discriminator_loop_ok_iff:
  "discriminator_loop d args m = Inr m' \<longleftrightarrow>
     (\<forall>A\<in>set args. member_const d A \<noteq> None)
     \<and> (\<forall>A\<in>set args. dict_lookup m (the (member_const d A)) = None)
     \<and> sorted_wrt (\<lambda>a b. \<not> py_eq a b) (map (\<lambda>A. the (member_const d A)) args)
     \<and> m' = m @ entries d args"
proof (induction args arbitrary: m)
  case Nil
  show ?case by (auto simp: entries_def)
next
  case (Cons arg rest)
  show ?case
  proof (cases "member_const d arg")
    case None
    then show ?thesis by (simp add: discriminator_loop_step del: discriminator_loop.simps)
  next
    case (Some c)
    show ?thesis
    proof (cases "dict_lookup m c = None")
      case False
      then show ?thesis using Some by (simp add: discriminator_loop_step del: discriminator_loop.simps)
    next
      case True
      have "discriminator_loop d (arg # rest) m = discriminator_loop d rest (m @ [(c, arg)])"
        using Some True by (simp add: discriminator_loop_step del: discriminator_loop.simps)
      moreover have "(\<forall>A\<in>set rest. dict_lookup (m @ [(c, arg)]) (the (member_const d A)) = None)
          \<longleftrightarrow> (\<forall>A\<in>set rest. dict_lookup m (the (member_const d A)) = None)
               \<and> (\<forall>A\<in>set rest. \<not> py_eq c (the (member_const d A)))"
        by (auto simp: dict_lookup_append split: option.splits)
      moreover have "(m @ [(c, arg)]) @ entries d rest = m @ entries d (arg # rest)"
        using Some by (simp add: entries_def)
      ultimately show ?thesis
        using Some True Cons.IH [of "m @ [(c, arg)]"] by auto
    qed
  qed
qed

lemma dict_lookup_entries_hit:
  assumes "sorted_wrt (\<lambda>a b. \<not> py_eq a b) (map (\<lambda>A. the (member_const d A)) args)"
    and "A \<in> set args" "py_eq (the (member_const d A)) tag"
  shows "dict_lookup (entries d args) tag = Some A"
  using assms
proof (induction args)
  case Nil
  then show ?case by simp
next
  case (Cons B rest)
  show ?case
  proof (cases "py_eq (the (member_const d B)) tag")
    case True
    have "A = B"
    proof (rule ccontr)
      assume "A \<noteq> B"
      with Cons.prems(2) have "A \<in> set rest" by simp
      with Cons.prems(1) have "\<not> py_eq (the (member_const d B)) (the (member_const d A))" by auto
      moreover have "py_eq (the (member_const d B)) (the (member_const d A))"
        using True Cons.prems(3) by (blast intro: py_eq_trans py_eq_sym)
      ultimately show False by blast
    qed
    with True show ?thesis by (simp add: entries_def)
  next
    case False
    with Cons.prems(3) have "A \<noteq> B" by blast
    with Cons.prems(2) have "A \<in> set rest" by simp
    with Cons.IH Cons.prems(1,3) have "dict_lookup (entries d rest) tag = Some A" by simp
    with False show ?thesis by (simp add: entries_def)
  qed
qed

lemma dict_lookup_entries_miss:
  "(\<forall>A\<in>set args. \<not> py_eq (the (member_const d A)) tag) \<Longrightarrow> dict_lookup (entries d args) tag = None"
  by (induction args) (auto simp: entries_def)

lemma validate_annotation_ok_iff:
  assumes "discriminator (field sf) = Some d" "d \<noteq> []"
  shows "validate_annotation sf = Inr sf' \<longleftrightarrow>
    (\<exists>comb args. type sf = Logical (Some (comb, args)) \<and> (comb = ''|'' \<or> comb = ''^'')
       \<and> (\<forall>A\<in>set args. member_const d A \<noteq> None)
       \<and> sorted_wrt (\<lambda>a b. \<not> py_eq a b) (map (\<lambda>A. the (member_const d A)) args)
       \<and> sf' = sf\<lparr>discriminator_map := entries d args\<rparr>)"
proof (cases "type sf")
  case (Logical c)
  show ?thesis
  proof (cases c)
    case None
    with Logical assms show ?thesis by (simp add: validate_annotation_def)
  next
    case (Some ca)
    obtain comb args where ca: "ca = (comb, args)" by (cases ca)
    show ?thesis
    proof (cases "comb = ''|'' \<or> comb = ''^''")
      case False
      with Logical Some ca assms show ?thesis by (auto simp: validate_annotation_def)
    next
      case True
      have "validate_annotation sf =
          (case discriminator_loop d args [] of Inl e \<Rightarrow> Inl e
           | Inr m \<Rightarrow> Inr (sf\<lparr>discriminator_map := m\<rparr>))"
        using Logical Some ca assms True by (auto simp: validate_annotation_def)
      then have "validate_annotation sf = Inr sf' \<longleftrightarrow>
          (\<exists>m. discriminator_loop d args [] = Inr m \<and> sf' = sf\<lparr>discriminator_map := m\<rparr>)"
        by (auto split: sum.splits)
      then show ?thesis
        using Logical Some ca True by (auto simp: discriminator_loop_ok_iff)
    qed
  qed
qed (use assms in \<open>simp_all add: validate_annotation_def\<close>)


lemma target_type_hit:
  assumes "discriminator (field sf) = Some d"
    and "discriminator_map sf = entries d args"
    and "sorted_wrt (\<lambda>a b. \<not> py_eq a b) (map (\<lambda>A. the (member_const d A)) args)"
    and "A \<in> set args" "member_const d A = Some c" "py_eq c (dict_get dict (VStr d))"
  shows "target_type sf (VDict dict) = Inr A"
proof -
  have ne: "discriminator_map sf \<noteq> []"
    using assms(2,4) by (auto simp: entries_def)
  have h: "hashable (dict_get dict (VStr d))"
    using assms(5,6) by (blast intro: py_eq_scalar_hashable member_const_literal)
  have "dict_lookup (entries d args) (dict_get dict (VStr d)) = Some A"
    using assms(3,4,5,6) by (simp add: dict_lookup_entries_hit)
  with ne h assms(1,2) show ?thesis
    by (simp add: target_type_def Let_def)
qed

lemma target_type_miss:
  assumes "discriminator (field sf) = Some d"
    and "discriminator_map sf = entries d args"
    and "hashable (dict_get dict (VStr d))"
    and "\<forall>A\<in>set args. \<not> py_eq (the (member_const d A)) (dict_get dict (VStr d))"
  shows "target_type sf (VDict dict) = Inr (type sf)"
proof -
  have "dict_lookup (entries d args) (dict_get dict (VStr d)) = None"
    using assms(4) by (rule dict_lookup_entries_miss)
  with assms(1,2,3) show ?thesis
    by (simp add: target_type_def Let_def)
qed

lemma parse_value_success:
  "target_type sf v = Inr t \<Longrightarrow> tr v t = Inr r \<Longrightarrow>
     parse_value tr sf v options = Inr (r, deprecation_notice sf options)"
  by (simp add: parse_value_def Let_def)

text \<open>
  Claim C4, as amended. For a field with the discriminator \<open>d\<close>: building the map fails
  exactly when the type is not an any-of or one-of combination, or a member is not a
  schema with a field \<open>d\<close> whose type has an \<^verbatim>\<open>int\<close>, \<^verbatim>\<open>str\<close> or \<^verbatim>\<open>bool\<close> constant, or two
  members carry equal constants. Once it is built, a dict whose tag entry equals the
  constant of a member is coerced against that member. A dict whose tag is hashable (or
  absent) and equals no member's constant goes to the declared type; when the
  transformer rejects it there, the \<open>ParseError\<close> of the field, with the declared type, is
  resolved by the field's error policy: escalated under throw and for a required field
  under exclude, a warning under preserve and for an optional field under exclude.
\<close>

theorem discriminated_union:
  assumes disc: "discriminator (field sf) = Some d" and ne: "d \<noteq> []"
  shows
   "(isl (validate_annotation sf) \<longleftrightarrow>
       \<not> (\<exists>comb args. type sf = Logical (Some (comb, args)) \<and> (comb = ''|'' \<or> comb = ''^'')
            \<and> (\<forall>A\<in>set args. member_const d A \<noteq> None)
            \<and> (\<forall>i j. i < j \<and> j < length args \<longrightarrow>
                  \<not> py_eq (the (member_const d (args ! i))) (the (member_const d (args ! j))))))
    \<and> (\<forall>sf' comb args. validate_annotation sf = Inr sf' \<and> type sf = Logical (Some (comb, args)) \<longrightarrow>
         (\<forall>A c dict. A \<in> set args \<and> member_const d A = Some c \<and> py_eq c (dict_get dict (VStr d)) \<longrightarrow>
            target_type sf' (VDict dict) = Inr A
            \<and> (\<forall>tr options r. tr (VDict dict) A = Inr r \<longrightarrow>
                  parse_value tr sf' (VDict dict) options = Inr (r, deprecation_notice sf' options)))
         \<and> (\<forall>dict. hashable (dict_get dict (VStr d))
               \<and> (\<forall>A\<in>set args. \<not> py_eq (the (member_const d A)) (dict_get dict (VStr d))) \<longrightarrow>
            target_type sf' (VDict dict) = Inr (type sf)
            \<and> (\<forall>tr options e. tr (VDict dict) (type sf) = Inl e \<longrightarrow>
                  parse_value tr sf' (VDict dict) options =
                    (let options' = deprecation_notice sf' options;
                         error = ParseError (ItemName (name sf)) (type sf) (VDict dict) e
                     in if get_on_error sf' options = EXCLUDE then
                          (if is_required sf' options
                           then Inr (VEllipsis, options'\<lparr>errors := errors options' @ [error]\<rparr>)
                           else Inr (VEllipsis, options'\<lparr>warnings := warnings options' @ [ErrorMessage error]\<rparr>))
                        else if get_on_error sf' options = PRESERVE
                        then Inr (VDict dict, options'\<lparr>warnings := warnings options' @ [ErrorMessage error]\<rparr>)
                        else Inr (VEllipsis, options'\<lparr>errors := errors options' @ [error]\<rparr>)))))"
proof (intro conjI allI impI; (elim conjE)?)
  have nth: "sorted_wrt (\<lambda>a b. \<not> py_eq a b) (map (\<lambda>A. the (member_const d A)) args)
      \<longleftrightarrow> (\<forall>i j. i < j \<and> j < length args \<longrightarrow>
                  \<not> py_eq (the (member_const d (args ! i))) (the (member_const d (args ! j))))" for args
    by (auto simp: sorted_wrt_iff_nth_less)
  have "isl (validate_annotation sf) \<longleftrightarrow> \<not> (\<exists>sf'. validate_annotation sf = Inr sf')"
    by (cases "validate_annotation sf") auto
  then show "isl (validate_annotation sf) \<longleftrightarrow>
       \<not> (\<exists>comb args. type sf = Logical (Some (comb, args)) \<and> (comb = ''|'' \<or> comb = ''^'')
            \<and> (\<forall>A\<in>set args. member_const d A \<noteq> None)
            \<and> (\<forall>i j. i < j \<and> j < length args \<longrightarrow>
                  \<not> py_eq (the (member_const d (args ! i))) (the (member_const d (args ! j)))))"
    unfolding validate_annotation_ok_iff [OF disc ne] nth by blast
next
  fix sf' comb args A c dict
  assume va: "validate_annotation sf = Inr sf'" and ty: "type sf = Logical (Some (comb, args))"
    and A: "A \<in> set args" "member_const d A = Some c" "py_eq c (dict_get dict (VStr d))"
  from va ty have sw: "sorted_wrt (\<lambda>a b. \<not> py_eq a b) (map (\<lambda>A. the (member_const d A)) args)"
    and sf': "sf' = sf\<lparr>discriminator_map := entries d args\<rparr>"
    unfolding validate_annotation_ok_iff [OF disc ne] by auto
  have d': "discriminator (field sf') = Some d" "discriminator_map sf' = entries d args"
    using disc sf' by simp_all
  show tt: "target_type sf' (VDict dict) = Inr A"
    using d' sw A by (rule target_type_hit)
  fix tr :: transformer and options r
  assume "tr (VDict dict) A = Inr r"
  with tt show "parse_value tr sf' (VDict dict) options = Inr (r, deprecation_notice sf' options)"
    by (rule parse_value_success)
next
  fix sf' comb args dict
  assume va: "validate_annotation sf = Inr sf'" and ty: "type sf = Logical (Some (comb, args))"
    and h: "hashable (dict_get dict (VStr d))"
    and miss: "\<forall>A\<in>set args. \<not> py_eq (the (member_const d A)) (dict_get dict (VStr d))"
  from va ty have sf': "sf' = sf\<lparr>discriminator_map := entries d args\<rparr>"
    unfolding validate_annotation_ok_iff [OF disc ne] by auto
  have d': "discriminator (field sf') = Some d" "discriminator_map sf' = entries d args"
    using disc sf' by simp_all
  have same: "type sf' = type sf" "name sf' = name sf" using sf' by simp_all
  have "target_type sf' (VDict dict) = Inr (type sf')"
    using d' h miss by (rule target_type_miss)
  then show tt: "target_type sf' (VDict dict) = Inr (type sf)" by (simp add: same)
  fix tr :: transformer and options e
  assume "tr (VDict dict) (type sf) = Inl e"
  from parse_value_failure [where tr = tr and options = options, OF tt this]
  show "parse_value tr sf' (VDict dict) options =
                    (let options' = deprecation_notice sf' options;
                         error = ParseError (ItemName (name sf)) (type sf) (VDict dict) e
                     in if get_on_error sf' options = EXCLUDE then
                          (if is_required sf' options
                           then Inr (VEllipsis, options'\<lparr>errors := errors options' @ [error]\<rparr>)
                           else Inr (VEllipsis, options'\<lparr>warnings := warnings options' @ [ErrorMessage error]\<rparr>))
                        else if get_on_error sf' options = PRESERVE
                        then Inr (VDict dict, options'\<lparr>warnings := warnings options' @ [ErrorMessage error]\<rparr>)
                        else Inr (VEllipsis, options'\<lparr>errors := errors options' @ [error]\<rparr>))"
    by (simp add: same)
qed


lemma validate_union_field:
  "validate_annotation (union_field f)
     = Inr ((union_field f)\<lparr>discriminator_map :=
              [(VInt 1, tagged ''Cat'' 1), (VInt 2, tagged ''Dog'' 2)]\<rparr>)"
  by (simp add: validate_annotation_def union_field_def tagged_def get_const_def Let_def)

lemma sample_rejects_tag_3:
  "sample_transformer (VDict [(VStr ''tag'', VInt 3)])
     (Logical (Some (''|'', [tagged ''Cat'' 1, tagged ''Dog'' 2])))
     = Inl (ValueError ''no member of the combination fits'')"
  by (simp add: tagged_def dict_get_def)

theorem discriminated_union_witness:
  "\<not> isl (validate_annotation (union_field plain_field))
   \<and> target_type ((union_field plain_field)\<lparr>discriminator_map :=
              [(VInt 1, tagged ''Cat'' 1), (VInt 2, tagged ''Dog'' 2)]\<rparr>)
        (VDict [(VStr ''tag'', VInt 2)]) = Inr (tagged ''Dog'' 2)
   \<and> target_type ((union_field plain_field)\<lparr>discriminator_map :=
              [(VInt 1, tagged ''Cat'' 1), (VInt 2, tagged ''Dog'' 2)]\<rparr>)
        (VDict [(VStr ''tag'', VInt 1)]) = Inr (tagged ''Cat'' 1)
   \<and> parse_value sample_transformer ((union_field plain_field)\<lparr>discriminator_map :=
              [(VInt 1, tagged ''Cat'' 1), (VInt 2, tagged ''Dog'' 2)]\<rparr>)
        (VDict [(VStr ''tag'', VInt 3)]) fresh_options
      = Inr (VEllipsis, fresh_options\<lparr>errors :=
          [ParseError (ItemName ''pet'') (Logical (Some (''|'', [tagged ''Cat'' 1, tagged ''Dog'' 2])))
             (VDict [(VStr ''tag'', VInt 3)]) (ValueError ''no member of the combination fits'')]\<rparr>)"
proof -
  let ?sf = "union_field plain_field"
  let ?args = "[tagged ''Cat'' 1, tagged ''Dog'' 2]"
  let ?sf' = "?sf\<lparr>discriminator_map := [(VInt 1, tagged ''Cat'' 1), (VInt 2, tagged ''Dog'' 2)]\<rparr>"
  have disc: "discriminator (field ?sf) = Some ''tag''" by (simp add: union_field_def)
  have ne: "''tag'' \<noteq> []" by simp
  have va: "validate_annotation ?sf = Inr ?sf'" by (rule validate_union_field)
  have ty: "type ?sf = Logical (Some (''|'', ?args))" by (simp add: union_field_def)
  note th = discriminated_union [OF disc ne, THEN conjunct2, rule_format, OF conjI [OF va ty]]
  have mc: "member_const ''tag'' (tagged ''Cat'' 1) = Some (VInt 1)"
    "member_const ''tag'' (tagged ''Dog'' 2) = Some (VInt 2)"
    by (simp_all add: member_const_def tagged_def get_const_def)
  have a: "\<not> isl (validate_annotation ?sf)" by (simp add: va)
  have b: "target_type ?sf' (VDict [(VStr ''tag'', VInt 2)]) = Inr (tagged ''Dog'' 2)"
    by (rule th [THEN conjunct1, rule_format, THEN conjunct1, of "tagged ''Dog'' 2" "VInt 2"])
       (simp add: mc dict_get_def)
  have c: "target_type ?sf' (VDict [(VStr ''tag'', VInt 1)]) = Inr (tagged ''Cat'' 1)"
    by (rule th [THEN conjunct1, rule_format, THEN conjunct1, of "tagged ''Cat'' 1" "VInt 1"])
       (simp add: mc dict_get_def)
  have miss: "hashable (dict_get [(VStr ''tag'', VInt 3)] (VStr ''tag''))
      \<and> (\<forall>A\<in>set ?args. \<not> py_eq (the (member_const ''tag'' A)) (dict_get [(VStr ''tag'', VInt 3)] (VStr ''tag'')))"
    by (simp add: mc dict_get_def)
  have "parse_value sample_transformer ?sf' (VDict [(VStr ''tag'', VInt 3)]) fresh_options =
     (let options' = deprecation_notice ?sf' fresh_options;
          error = ParseError (ItemName (name ?sf)) (type ?sf) (VDict [(VStr ''tag'', VInt 3)])
                    (ValueError ''no member of the combination fits'')
      in if get_on_error ?sf' fresh_options = EXCLUDE then
           (if is_required ?sf' fresh_options
            then Inr (VEllipsis, options'\<lparr>errors := errors options' @ [error]\<rparr>)
            else Inr (VEllipsis, options'\<lparr>warnings := warnings options' @ [ErrorMessage error]\<rparr>))
         else if get_on_error ?sf' fresh_options = PRESERVE
         then Inr (VDict [(VStr ''tag'', VInt 3)], options'\<lparr>warnings := warnings options' @ [ErrorMessage error]\<rparr>)
         else Inr (VEllipsis, options'\<lparr>errors := errors options' @ [error]\<rparr>))"
    by (rule th [THEN conjunct2, rule_format, OF miss, THEN conjunct2, rule_format])
       (simp only: ty sample_rejects_tag_3)
  then have d: "parse_value sample_transformer ?sf' (VDict [(VStr ''tag'', VInt 3)]) fresh_options
      = Inr (VEllipsis, fresh_options\<lparr>errors :=
          [ParseError (ItemName ''pet'') (Logical (Some (''|'', ?args)))
             (VDict [(VStr ''tag'', VInt 3)]) (ValueError ''no member of the combination fits'')]\<rparr>)"
    by (simp add: union_field_def plain_field_def fresh_options_def get_on_error_def
        deprecation_notice_def EXCLUDE_def PRESERVE_def THROW_def)
  from a b c d show ?thesis by blast
qed

text \<open>
  The claim as stated has the unmatched tag \<^verbatim>\<open>3\<close> raise: under the preserve policy the raw
  dict is returned with a warning and the error buffer stays empty.
\<close>

theorem unmatched_tag_preserved_counterexample:
  "validate_annotation (union_field (plain_field\<lparr>on_error := Some ''preserve''\<rparr>))
     = Inr ((union_field (plain_field\<lparr>on_error := Some ''preserve''\<rparr>))\<lparr>discriminator_map :=
              [(VInt 1, tagged ''Cat'' 1), (VInt 2, tagged ''Dog'' 2)]\<rparr>)
   \<and> parse_value sample_transformer
        ((union_field (plain_field\<lparr>on_error := Some ''preserve''\<rparr>))\<lparr>discriminator_map :=
              [(VInt 1, tagged ''Cat'' 1), (VInt 2, tagged ''Dog'' 2)]\<rparr>)
        (VDict [(VStr ''tag'', VInt 3)]) fresh_options
      = Inr (VDict [(VStr ''tag'', VInt 3)], fresh_options\<lparr>warnings :=
          [ErrorMessage (ParseError (ItemName ''pet'')
             (Logical (Some (''|'', [tagged ''Cat'' 1, tagged ''Dog'' 2])))
             (VDict [(VStr ''tag'', VInt 3)]) (ValueError ''no member of the combination fits''))]\<rparr>)"
proof -
  let ?sf' = "(union_field (plain_field\<lparr>on_error := Some ''preserve''\<rparr>))\<lparr>discriminator_map :=
              [(VInt 1, tagged ''Cat'' 1), (VInt 2, tagged ''Dog'' 2)]\<rparr>"
  let ?v = "VDict [(VStr ''tag'', VInt 3)]"
  have tt: "target_type ?sf' ?v = Inr (Logical (Some (''|'', [tagged ''Cat'' 1, tagged ''Dog'' 2])))"
    by (simp add: target_type_def union_field_def dict_get_def Let_def)
  note pv = parse_value_failure [where tr = sample_transformer and options = fresh_options,
      OF tt sample_rejects_tag_3]
  have "parse_value sample_transformer ?sf' ?v fresh_options
      = Inr (?v, fresh_options\<lparr>warnings :=
          [ErrorMessage (ParseError (ItemName ''pet'')
             (Logical (Some (''|'', [tagged ''Cat'' 1, tagged ''Dog'' 2])))
             ?v (ValueError ''no member of the combination fits''))]\<rparr>)"
    unfolding pv
    by (simp add: union_field_def plain_field_def fresh_options_def get_on_error_def
        deprecation_notice_def EXCLUDE_def PRESERVE_def THROW_def)
  then show ?thesis by (simp add: validate_union_field)
qed

text \<open>A tag that cannot be hashed: the membership test raises before any coercion.\<close>

lemma unhashable_tag_raises_TypeError:
  "parse_value sample_transformer
     ((union_field plain_field)\<lparr>discriminator_map :=
        [(VInt 1, tagged ''Cat'' 1), (VInt 2, tagged ''Dog'' 2)]\<rparr>)
     (VDict [(VStr ''tag'', VList [])]) fresh_options
   = Inl (TypeError ''unhashable type'')"
  by (simp add: parse_value_def target_type_def union_field_def dict_get_def Let_def)

subsection \<open>Absent positional-only parameters\<close>

















subsection \<open>The generator wrapper\<close>
















end
